theory Spec2Isabelle
  imports Complex_Main "HOL-Library.Sublist" "HOL-Library.Log_Nat"
begin

section \<open>Python strings\<close>

text \<open>
  Python strings are sequences of code points. The calculator only ever handles code
  points below 256 (the button symbols, digits, and the output of the float
  formatters), so a string is a \<open>char list\<close> read as Latin-1: one \<open>char\<close> per code
  point. The three non-ASCII button symbols are single characters.
\<close>

definition times_sym :: string where "times_sym = [CHR 0xD7]"
definition div_sym :: string where "div_sym = [CHR 0xF7]"
definition plusminus_sym :: string where "plusminus_sym = [CHR 0xB1]"

definition is_ascii_digit :: "char \<Rightarrow> bool" where
  "is_ascii_digit c = (c \<in> set ''0123456789'')"

text \<open>\<open>str.isdigit()\<close>: non-empty and every character a digit. Below 256 the digit
  characters are \<open>0\<close>..\<open>9\<close> and the superscripts two, three and one.\<close>

definition isdigit_char :: "char \<Rightarrow> bool" where
  "isdigit_char c = (is_ascii_digit c \<or> c \<in> {CHR 0xB2, CHR 0xB3, CHR 0xB9})"

definition isdigit :: "string \<Rightarrow> bool" where
  "isdigit s = (s \<noteq> [] \<and> list_all isdigit_char s)"

text \<open>\<open>pat in s\<close> on strings: \<open>pat\<close> occurs as a contiguous substring.\<close>

fun str_in :: "string \<Rightarrow> string \<Rightarrow> bool" where
  "str_in pat [] = (pat = [])"
| "str_in pat (c # cs) = (prefix pat (c # cs) \<or> str_in pat cs)"

definition startswith :: "string \<Rightarrow> string \<Rightarrow> bool" where
  "startswith s p = prefix p s"

text \<open>\<open>s.rstrip(c)\<close> for a single character.\<close>

definition rstrip :: "char \<Rightarrow> string \<Rightarrow> string" where
  "rstrip c s = rev (dropWhile (\<lambda>x. x = c) (rev s))"

text \<open>Numbers are kept as \<open>int\<close> throughout.\<close>

definition digit_val :: "char \<Rightarrow> int" where
  "digit_val c = of_char c - 48"

definition int_of_digits :: "string \<Rightarrow> int" where
  "int_of_digits s = foldl (\<lambda>a c. 10 * a + digit_val c) 0 s"

text \<open>The decimal digits of a non-negative integer.\<close>

function str_nat :: "int \<Rightarrow> string" where
  "str_nat n = (if n < 10 then [''0123456789'' ! nat n]
                else str_nat (n div 10) @ [''0123456789'' ! nat (n mod 10)])"
  by pat_completeness auto
termination
  by (relation "measure nat") auto

declare str_nat.simps [simp del]

text \<open>\<open>str(i)\<close> for a Python int.\<close>

definition str_int :: "int \<Rightarrow> string" where
  "str_int i = (if i < 0 then ''-'' @ str_nat (- i) else str_nat i)"

text \<open>Left-pad with zeros to a minimum width, as \<open>%02d\<close> and \<open>%08d\<close> do.\<close>

definition zero_pad :: "nat \<Rightarrow> string \<Rightarrow> string" where
  "zero_pad w s = replicate (w - length s) CHR ''0'' @ s"

section \<open>Python floats\<close>

text \<open>
  A Python \<open>float\<close> is an IEEE 754 binary64 value. A finite one is kept as its sign bit
  (\<open>True\<close> for negative, so that \<open>-0.0\<close> is \<open>Fin True 0\<close>) and its exact magnitude as a
  rational; every operation computes the exact rational result and rounds it to the
  nearest representable magnitude, ties to even, overflowing to infinity.
\<close>

datatype pyfloat = Fin bool rat | Infty bool | NaN

text \<open>\<open>ipow b e\<close> is \<open>b\<close> to the power \<open>e\<close> for \<open>e \<ge> 0\<close>, by repeated squaring;
  \<open>pow_int\<close> extends it to negative exponents.\<close>

function ipow :: "rat \<Rightarrow> int \<Rightarrow> rat" where
  "ipow b e = (if e \<le> 0 then 1
               else if e mod 2 = 0 then (let h = ipow b (e div 2) in h * h)
               else b * ipow b (e - 1))"
  by pat_completeness auto
termination
  by (relation "measure (\<lambda>(b, e). nat e)") auto

declare ipow.simps [simp del]

definition pow_int :: "rat \<Rightarrow> int \<Rightarrow> rat" where
  "pow_int b e = (if 0 \<le> e then ipow b e else 1 / ipow b (- e))"

text \<open>The number of digits of \<open>n\<close> in base \<open>b\<close>; \<open>0\<close> for \<open>n \<le> 0\<close>.\<close>

function count_digits :: "int \<Rightarrow> int \<Rightarrow> int" where
  "count_digits b n = (if n \<le> 0 \<or> b \<le> 1 then 0 else count_digits b (n div b) + 1)"
  by pat_completeness auto
termination
  by (relation "measure (\<lambda>(b, n). nat n)") (auto simp add: int_div_less_self)

declare count_digits.simps [simp del]

text \<open>\<open>floor_log b q\<close> is the integer \<open>e\<close> with \<open>b^e \<le> q < b^(e+1)\<close>, for \<open>q > 0\<close>.\<close>

definition floor_log :: "int \<Rightarrow> rat \<Rightarrow> int" where
  "floor_log b q =
     (let (n, d) = quotient_of q;
          e0 = count_digits b n - count_digits b d
      in if pow_int (of_int b) e0 \<le> q then e0 else e0 - 1)"

definition round_half_even :: "rat \<Rightarrow> int" where
  "round_half_even q =
     (let f = \<lfloor>q\<rfloor>; d = q - of_int f
      in if d < 1 / 2 then f else if 1 / 2 < d then f + 1
         else if even f then f else f + 1)"

text \<open>Round a non-negative magnitude to binary64: 53 significant bits, exponents from
  \<open>-1022\<close> (subnormals below), \<open>None\<close> when the rounded value reaches \<open>2^1024\<close>
  (which needs an exponent of at least \<open>1023\<close>, since \<open>r \<le> 2^(e+1)\<close>).\<close>

definition round_double :: "rat \<Rightarrow> rat option" where
  "round_double m =
     (if m = 0 then Some 0
      else let e = max (floor_log 2 m) (- 1022);
               u = pow_int 2 (e - 52);
               r = of_int (round_half_even (m / u)) * u
           in if e < 1023 then Some r
              else if pow_int 2 1024 \<le> r then None else Some r)"

definition mk_float :: "bool \<Rightarrow> rat \<Rightarrow> pyfloat" where
  "mk_float s m = (case round_double m of None \<Rightarrow> Infty s | Some r \<Rightarrow> Fin s r)"

definition fval :: "bool \<Rightarrow> rat \<Rightarrow> rat" where
  "fval s m = (if s then - m else m)"

fun float_neg :: "pyfloat \<Rightarrow> pyfloat" where
  "float_neg (Fin s m) = Fin (\<not> s) m"
| "float_neg (Infty s) = Infty (\<not> s)"
| "float_neg NaN = NaN"

fun float_abs :: "pyfloat \<Rightarrow> pyfloat" where
  "float_abs (Fin s m) = Fin False m"
| "float_abs (Infty s) = Infty False"
| "float_abs NaN = NaN"

fun float_add :: "pyfloat \<Rightarrow> pyfloat \<Rightarrow> pyfloat" where
  "float_add NaN y = NaN"
| "float_add x NaN = NaN"
| "float_add (Infty s) (Infty t) = (if s = t then Infty s else NaN)"
| "float_add (Infty s) (Fin t m) = Infty s"
| "float_add (Fin s m) (Infty t) = Infty t"
| "float_add (Fin s m) (Fin t n) =
     (let v = fval s m + fval t n
      in if v = 0 then Fin (s \<and> t) 0 else mk_float (v < 0) \<bar>v\<bar>)"

definition float_sub :: "pyfloat \<Rightarrow> pyfloat \<Rightarrow> pyfloat" where
  "float_sub x y = float_add x (float_neg y)"

fun float_mul :: "pyfloat \<Rightarrow> pyfloat \<Rightarrow> pyfloat" where
  "float_mul NaN y = NaN"
| "float_mul x NaN = NaN"
| "float_mul (Infty s) (Infty t) = Infty (s \<noteq> t)"
| "float_mul (Infty s) (Fin t m) = (if m = 0 then NaN else Infty (s \<noteq> t))"
| "float_mul (Fin s m) (Infty t) = (if m = 0 then NaN else Infty (s \<noteq> t))"
| "float_mul (Fin s m) (Fin t n) = mk_float (s \<noteq> t) (m * n)"

text \<open>True division; \<open>None\<close> is Python's \<open>ZeroDivisionError\<close>.\<close>

fun float_div :: "pyfloat \<Rightarrow> pyfloat \<Rightarrow> pyfloat option" where
  "float_div x (Fin t n) =
     (if n = 0 then None
      else case x of NaN \<Rightarrow> Some NaN
           | Infty s \<Rightarrow> Some (Infty (s \<noteq> t))
           | Fin s m \<Rightarrow> Some (mk_float (s \<noteq> t) (m / n)))"
| "float_div NaN y = Some NaN"
| "float_div x NaN = Some NaN"
| "float_div (Infty s) (Infty t) = Some NaN"
| "float_div (Fin s m) (Infty t) = Some (Fin (s \<noteq> t) 0)"

fun float_less :: "pyfloat \<Rightarrow> pyfloat \<Rightarrow> bool" where
  "float_less NaN y = False"
| "float_less x NaN = False"
| "float_less (Fin s m) (Fin t n) = (fval s m < fval t n)"
| "float_less (Fin s m) (Infty t) = (\<not> t)"
| "float_less (Infty s) (Fin t n) = s"
| "float_less (Infty s) (Infty t) = (s \<and> \<not> t)"

fun float_eq :: "pyfloat \<Rightarrow> pyfloat \<Rightarrow> bool" where
  "float_eq (Fin s m) (Fin t n) = (fval s m = fval t n)"
| "float_eq (Infty s) (Infty t) = (s = t)"
| "float_eq x y = False"

text \<open>Comparing a float with a Python int compares the exact values.\<close>

fun float_gt_int :: "pyfloat \<Rightarrow> int \<Rightarrow> bool" where
  "float_gt_int (Fin s m) i = (of_int i < fval s m)"
| "float_gt_int (Infty s) i = (\<not> s)"
| "float_gt_int NaN i = False"

fun float_eq_int :: "pyfloat \<Rightarrow> int \<Rightarrow> bool" where
  "float_eq_int (Fin s m) i = (fval s m = of_int i)"
| "float_eq_int x i = False"

text \<open>The int operand of a mixed division is converted to the nearest float.\<close>

definition float_of_int :: "int \<Rightarrow> pyfloat" where
  "float_of_int i = mk_float (i < 0) \<bar>of_int i\<bar>"

datatype py_error = ValueError | OverflowError | ZeroDivisionError

text \<open>\<open>int(x)\<close>: truncation towards zero; raises on infinities and NaN.\<close>

fun int_of_float :: "pyfloat \<Rightarrow> py_error + int" where
  "int_of_float (Fin s m) = Inr (if s then - \<lfloor>m\<rfloor> else \<lfloor>m\<rfloor>)"
| "int_of_float (Infty s) = Inl OverflowError"
| "int_of_float NaN = Inl ValueError"

subsection \<open>\<open>float(s)\<close>\<close>

definition is_space :: "char \<Rightarrow> bool" where
  "is_space c = (c \<in> {CHR 0x09, CHR 0x0A, CHR 0x0B, CHR 0x0C, CHR 0x0D, CHR 0x20,
                        CHR 0x85, CHR 0xA0})"

definition strip :: "string \<Rightarrow> string" where
  "strip s = rev (dropWhile is_space (rev (dropWhile is_space s)))"

fun underscores_ok :: "char option \<Rightarrow> string \<Rightarrow> bool" where
  "underscores_ok prev [] = True"
| "underscores_ok prev (c # cs) =
     ((if c = CHR ''_''
       then (case prev of Some p \<Rightarrow> is_ascii_digit p | None \<Rightarrow> False)
          \<and> (case cs of d # ds \<Rightarrow> is_ascii_digit d | [] \<Rightarrow> False)
       else True)
      \<and> underscores_ok (Some c) cs)"

definition ascii_lower :: "char \<Rightarrow> char" where
  "ascii_lower c = (if c \<in> set ''ABCDEFGHIJKLMNOPQRSTUVWXYZ''
                    then char_of (of_char c + (32::int)) else c)"

definition split_sign :: "string \<Rightarrow> bool \<times> string" where
  "split_sign s = (case s of
       c # cs \<Rightarrow> if c = CHR ''-'' then (True, cs)
                 else if c = CHR ''+'' then (False, cs) else (False, s)
     | [] \<Rightarrow> (False, s))"

definition parse_exponent :: "string \<Rightarrow> int option" where
  "parse_exponent r = (case r of
       [] \<Rightarrow> Some 0
     | c # cs \<Rightarrow>
         if c = CHR ''e'' \<or> c = CHR ''E''
         then (let (neg, ds) = split_sign cs
               in if ds \<noteq> [] \<and> list_all is_ascii_digit ds
                  then Some (if neg then - int_of_digits ds else int_of_digits ds)
                  else None)
         else None)"

definition float_of_string :: "string \<Rightarrow> pyfloat option" where
  "float_of_string s =
     (let t = strip s in
      if \<not> underscores_ok None t then None
      else let (neg, r) = split_sign (filter (\<lambda>c. c \<noteq> CHR ''_'') t);
               low = map ascii_lower r
      in if low = ''inf'' \<or> low = ''infinity'' then Some (Infty neg)
         else if low = ''nan'' then Some NaN
         else let ip = takeWhile is_ascii_digit r;
                  r1 = dropWhile is_ascii_digit r;
                  fp = (case r1 of c # cs \<Rightarrow> if c = CHR ''.'' then takeWhile is_ascii_digit cs else []
                        | [] \<Rightarrow> []);
                  r2 = (case r1 of c # cs \<Rightarrow> if c = CHR ''.'' then dropWhile is_ascii_digit cs else r1
                        | [] \<Rightarrow> [])
              in if ip = [] \<and> fp = [] then None
                 else case parse_exponent r2 of
                        None \<Rightarrow> None
                      | Some ex \<Rightarrow>
                          Some (mk_float neg (of_int (int_of_digits (ip @ fp))
                                              * pow_int 10 (ex - int (length fp)))))"

subsection \<open>Formatting\<close>

definition exp_suffix :: "int \<Rightarrow> string" where
  "exp_suffix k = ''e'' @ (if k < 0 then ''-'' else ''+'') @ zero_pad 2 (str_nat \<bar>k\<bar>)"

text \<open>\<open>f"{x:.2e}"\<close>: the exact value rounded half-even to three significant digits.\<close>

fun fmt_e2 :: "pyfloat \<Rightarrow> string" where
  "fmt_e2 NaN = ''nan''"
| "fmt_e2 (Infty s) = (if s then ''-inf'' else ''inf'')"
| "fmt_e2 (Fin s m) =
     (if s then ''-'' else '''') @
     (if m = 0 then ''0.00e+00''
      else let k0 = floor_log 10 m;
               d0 = round_half_even (m / pow_int 10 (k0 - 2));
               d = (if d0 = 1000 then 100 else d0);
               k = (if d0 = 1000 then k0 + 1 else k0);
               ds = str_nat d
           in take 1 ds @ ''.'' @ drop 1 ds @ exp_suffix k)"

text \<open>\<open>f"{x:.8f}"\<close>: the exact value rounded half-even to eight decimal places.\<close>

fun fmt_f8 :: "pyfloat \<Rightarrow> string" where
  "fmt_f8 NaN = ''nan''"
| "fmt_f8 (Infty s) = (if s then ''-inf'' else ''inf'')"
| "fmt_f8 (Fin s m) =
     (let n = round_half_even (m * 100000000)
      in (if s then ''-'' else '''') @ str_nat (n div 100000000) @ ''.''
         @ zero_pad 8 (str_nat (n mod 100000000)))"

text \<open>
  \<open>str(x)\<close> and \<open>repr(x)\<close>: the shortest decimal digit string that reads back as the same
  float, the nearest to the exact value among those of that length. With \<open>n\<close> digits
  the only candidates are the two \<open>n\<close>-digit decimals around the value.
\<close>

definition shortest_candidate :: "rat \<Rightarrow> int \<Rightarrow> nat \<Rightarrow> (int \<times> int) option" where
  "shortest_candidate m k n =
     (let ex = k - int n + 1;
          sc = pow_int 10 ex;
          lo = \<lfloor>m / sc\<rfloor>;
          hi = lo + 1;
          cl = (round_double (of_int lo * sc) = Some m);
          ch = (round_double (of_int hi * sc) = Some m);
          dl = m - of_int lo * sc;
          dh = of_int hi * sc - m
      in if cl \<and> ch then Some (if dl < dh then lo else if dh < dl then hi
                                 else if even lo then lo else hi, ex)
         else if cl then Some (lo, ex)
         else if ch then Some (hi, ex)
         else None)"

fun shortest_from :: "rat \<Rightarrow> int \<Rightarrow> nat list \<Rightarrow> (int \<times> int) option" where
  "shortest_from m k [] = None"
| "shortest_from m k (n # ns) =
     (case shortest_candidate m k n of Some c \<Rightarrow> Some c | None \<Rightarrow> shortest_from m k ns)"

definition shortest_digits :: "rat \<Rightarrow> int \<times> int" where
  "shortest_digits m =
     (let k = floor_log 10 m
      in case shortest_from m k [1 ..< 18] of
           Some c \<Rightarrow> c
         | None \<Rightarrow> (round_half_even (m / pow_int 10 (k - 16)), k - 16))"

fun py_str :: "pyfloat \<Rightarrow> string" where
  "py_str NaN = ''nan''"
| "py_str (Infty s) = (if s then ''-inf'' else ''inf'')"
| "py_str (Fin s m) =
     (if s then ''-'' else '''') @
     (if m = 0 then ''0.0''
      else let (c, ex) = shortest_digits m;
               full = str_nat c;
               decpt = int (length full) + ex;
               ds = rstrip CHR ''0'' full
           in if - 4 < decpt \<and> decpt \<le> 16
              then (if decpt \<le> 0 then ''0.'' @ replicate (nat (- decpt)) CHR ''0'' @ ds
                    else if int (length ds) \<le> decpt
                    then ds @ replicate (nat decpt - length ds) CHR ''0'' @ ''.0''
                    else take (nat decpt) ds @ ''.'' @ drop (nat decpt) ds)
              else take 1 ds @ (if 1 < length ds then ''.'' @ drop 1 ds else '''')
                   @ exp_suffix (decpt - 1))"

section \<open>Binary evaluation\<close>

text \<open>The literal \<open>0.000001\<close> is the double nearest to it, \<open>4722366482869645 / 2^72\<close>
  (lemma \<open>lit_0_000001_rounds\<close> below).\<close>

definition lit_0_000001 :: pyfloat where
  "lit_0_000001 = Fin False (4722366482869645 / 4722366482869645213696)"

text \<open>Lines 316 to 322 of \<open>calculate\<close>, with the \<open>except\<close> clause that catches what
  \<open>int(result)\<close> raises.\<close>

definition format_result :: "pyfloat \<Rightarrow> string" where
  "format_result result =
     (if float_gt_int (float_abs result) 999999999
         \<or> (float_less (float_abs result) lit_0_000001 \<and> \<not> float_eq_int result 0)
      then fmt_e2 result
      else case int_of_float result of
             Inl err \<Rightarrow> ''Error''
           | Inr i \<Rightarrow> if float_eq_int result i then str_int i
                      else rstrip CHR ''.'' (rstrip CHR ''0'' (fmt_f8 result)))"

text \<open>Lines 303 to 314: the operator chain. \<open>None\<close> is an early \<open>return "Error"\<close>
  (or the \<open>ZeroDivisionError\<close> a division would raise into the \<open>except\<close> clause).\<close>

definition compute :: "string \<Rightarrow> pyfloat \<Rightarrow> pyfloat \<Rightarrow> pyfloat option" where
  "compute operation n1 n2 =
     (if operation = ''+'' then Some (float_add n1 n2)
      else if operation = ''-'' then Some (float_sub n1 n2)
      else if operation = times_sym then Some (float_mul n1 n2)
      else if operation = div_sym
      then (if float_eq_int n2 0 then None else float_div n1 n2)
      else None)"

definition calculate :: "string \<Rightarrow> string \<Rightarrow> string \<Rightarrow> string" where
  "calculate num1 operation num2 =
     (case float_of_string num1 of
        None \<Rightarrow> ''Error''
      | Some n1 \<Rightarrow>
         (case float_of_string num2 of
            None \<Rightarrow> ''Error''
          | Some n2 \<Rightarrow>
             (case compute operation n1 n2 of
                None \<Rightarrow> ''Error''
              | Some result \<Rightarrow> format_result result)))"

text \<open>
  The formatting policy as the specification words it, for comparison with
  \<open>format_result\<close>: scientific notation when the magnitude exceeds \<open>1e9\<close> or is below
  \<open>1e-6\<close> and not zero, else a bare integer when integral, else eight fractional
  digits with trailing zeros and point stripped.
\<close>

fun spec_format_policy :: "pyfloat \<Rightarrow> string" where
  "spec_format_policy (Fin s m) =
     (if 1000000000 < m \<or> (m < 1 / 1000000 \<and> m \<noteq> 0) then fmt_e2 (Fin s m)
      else if m = of_int \<lfloor>m\<rfloor> then str_int (if s then - \<lfloor>m\<rfloor> else \<lfloor>m\<rfloor>)
      else rstrip CHR ''.'' (rstrip CHR ''0'' (fmt_f8 (Fin s m))))"
| "spec_format_policy x = fmt_e2 x"

section \<open>The calculator\<close>

text \<open>
  The state of \<open>VirtualTouchCalculator\<close> that the button logic reads and writes. The
  button dictionary is an association list in insertion order. Clock readings
  (\<open>time.time()\<close>, in seconds) and the cooldown are floats, subtracted and compared
  as doubles. \<open>printed\<close> collects the lines written to standard output by
  \<open>process_button_press\<close>.
\<close>

record button_data =
  rect :: "int \<times> int \<times> int \<times> int"
  center :: "int \<times> int"
  pressed :: bool
  hover :: bool

record calc =
  current_number :: string
  previous_number :: string
  operation :: string
  display :: string
  history :: "string list"
  just_calculated :: bool
  last_touch_time :: pyfloat
  button_pressed :: "string option"
  button_press_time :: pyfloat
  buttons :: "(string \<times> button_data) list"
  printed :: "string list"

text \<open>The literal \<open>0.3\<close> is the double nearest to it, \<open>5404319552844595 / 2^54\<close>, a
  little below three tenths (lemma \<open>touch_cooldown_rounds\<close> below).\<close>

definition touch_cooldown :: pyfloat where
  "touch_cooldown = Fin False (5404319552844595 / 18014398509481984)"

definition touch_threshold :: real where "touch_threshold = 30"

definition button_layout :: "string list list" where
  "button_layout =
     [[''C'', plusminus_sym, ''%'', div_sym],
      [''7'', ''8'', ''9'', times_sym],
      [''4'', ''5'', ''6'', ''-''],
      [''1'', ''2'', ''3'', ''+''],
      [''0'', ''.'', ''='', ''del'']]"

definition init_calc :: calc where
  "init_calc = \<lparr>current_number = [], previous_number = [], operation = [],
     display = ''0'', history = [], just_calculated = False, last_touch_time = Fin False 0,
     button_pressed = None, button_press_time = Fin False 0, buttons = [], printed = []\<rparr>"

subsection \<open>Layout and hit test\<close>

text \<open>\<open>d[k] = v\<close> on a dictionary: replace in place, or append a new key.\<close>

fun dict_set :: "'k \<Rightarrow> 'v \<Rightarrow> ('k \<times> 'v) list \<Rightarrow> ('k \<times> 'v) list" where
  "dict_set k v [] = [(k, v)]"
| "dict_set k v ((k', v') # kvs) =
     (if k' = k then (k, v) # kvs else (k', v') # dict_set k v kvs)"

definition make_button :: "int \<Rightarrow> int \<Rightarrow> nat \<Rightarrow> nat \<Rightarrow> string \<Rightarrow> button_data" where
  "make_button start_x start_y row_idx col_idx button_text =
     (let x = start_x + int col_idx * (80 + 8);
          y = start_y + int row_idx * (60 + 8);
          width = (if button_text = ''0'' then 80 * 2 + 8 else 80)
      in \<lparr>rect = (x, y, x + width, y + 60),
          center = (x + width div 2, y + 60 div 2),
          pressed = False, hover = False\<rparr>)"

definition setup_buttons :: "int \<Rightarrow> int \<Rightarrow> calc \<Rightarrow> calc" where
  "setup_buttons frame_width frame_height st =
     (let panel_x = frame_width - 400;
          start_x = panel_x + 20;
          start_y = 200
      in st\<lparr>buttons :=
           foldl (\<lambda>bs (row_idx, row).
                    foldl (\<lambda>bs (col_idx, button_text).
                             dict_set button_text
                               (make_button start_x start_y row_idx col_idx button_text) bs)
                          bs (enumerate 0 row))
                 [] (enumerate 0 button_layout)\<rparr>)"

fun is_point_in_rect :: "int \<times> int \<Rightarrow> int \<times> int \<times> int \<times> int \<Rightarrow> bool" where
  "is_point_in_rect (x, y) (x1, y1, x2, y2) = (x1 \<le> x \<and> x \<le> x2 \<and> y1 \<le> y \<and> y \<le> y2)"

text \<open>
  \<open>math.sqrt\<close> of an exact integer. The program only compares distances with the
  threshold and with each other after the threshold test passed, that is for squared
  distances below 900, where the correctly rounded double square root orders as the
  real one does; the distance is therefore the real square root.
\<close>

definition sq_dist :: "int \<times> int \<Rightarrow> int \<times> int \<Rightarrow> int" where
  "sq_dist point1 point2 = (fst point1 - fst point2)\<^sup>2 + (snd point1 - snd point2)\<^sup>2"

definition calculate_distance :: "int \<times> int \<Rightarrow> int \<times> int \<Rightarrow> real" where
  "calculate_distance point1 point2 = sqrt (of_int (sq_dist point1 point2))"

text \<open>The loop of \<open>detect_button_touch\<close>; \<open>min_distance = None\<close> is \<open>float('inf')\<close>.\<close>

fun detect_loop ::
  "int \<times> int \<Rightarrow> string option \<Rightarrow> real option \<Rightarrow> (string \<times> button_data) list
   \<Rightarrow> string option \<times> (string \<times> button_data) list" where
  "detect_loop finger_pos touched_button min_distance [] = (touched_button, [])"
| "detect_loop finger_pos touched_button min_distance ((button_text, data) # rest) =
     (let distance = calculate_distance finger_pos (center data);
          hit = (is_point_in_rect finger_pos (rect data)
                 \<and> distance < touch_threshold
                 \<and> (case min_distance of None \<Rightarrow> True | Some d \<Rightarrow> distance < d));
          (t, bs) = detect_loop finger_pos
                      (if hit then Some button_text else touched_button)
                      (if hit then Some distance else min_distance) rest
      in (t, (button_text, data\<lparr>hover := hit\<rparr>) # bs))"

definition detect_button_touch :: "(int \<times> int) option \<Rightarrow> calc \<Rightarrow> string option \<times> calc" where
  "detect_button_touch finger_pos st =
     (case finger_pos of
        None \<Rightarrow> (None, st\<lparr>buttons := map (\<lambda>(k, d). (k, d\<lparr>hover := False\<rparr>)) (buttons st)\<rparr>)
      | Some p \<Rightarrow> (let (t, bs) = detect_loop p None None (buttons st)
                  in (t, st\<lparr>buttons := bs\<rparr>)))"

subsection \<open>Button logic\<close>

definition operators :: "string list" where
  "operators = [''+'', ''-'', times_sym, div_sym]"

definition press_digit :: "string \<Rightarrow> calc \<Rightarrow> calc" where
  "press_digit button_text st =
     (if just_calculated st
      then st\<lparr>display := button_text, current_number := button_text,
              just_calculated := False\<rparr>
      else let d = (if display st = ''0'' \<or> str_in ''Error'' (display st) then button_text
                    else if length (display st) < 12 then display st @ button_text
                    else display st)
           in st\<lparr>display := d, current_number := d\<rparr>)"

definition press_dot :: "calc \<Rightarrow> calc" where
  "press_dot st =
     (if \<not> str_in ''.'' (display st) \<and> \<not> just_calculated st
      then let d = (if display st = ''0'' then ''0.'' else display st @ ''.'')
           in st\<lparr>display := d, current_number := d\<rparr>
      else st)"

definition press_operator :: "string \<Rightarrow> calc \<Rightarrow> calc" where
  "press_operator button_text st =
     (if current_number st \<noteq> []
      then (if operation st \<noteq> [] \<and> previous_number st \<noteq> []
            then let result = calculate (previous_number st) (operation st) (current_number st)
                 in if \<not> str_in ''Error'' result
                    then st\<lparr>previous_number := result, display := result,
                            operation := button_text, current_number := [],
                            just_calculated := False\<rparr>
                    else st\<lparr>display := result\<rparr>
            else st\<lparr>previous_number := current_number st, operation := button_text,
                    current_number := [], just_calculated := False\<rparr>)
      else st)"

definition history_entry :: "calc \<Rightarrow> string \<Rightarrow> string" where
  "history_entry st result =
     previous_number st @ '' '' @ operation st @ '' '' @ current_number st @ '' = '' @ result"

definition equals_ready :: "calc \<Rightarrow> bool" where
  "equals_ready st =
     (current_number st \<noteq> [] \<and> operation st \<noteq> [] \<and> previous_number st \<noteq> [])"

definition press_equals :: "calc \<Rightarrow> calc" where
  "press_equals st =
     (if equals_ready st
      then let result = calculate (previous_number st) (operation st) (current_number st);
               h = history st @ [history_entry st result];
               h' = (if 10 < length h then tl h else h)
           in st\<lparr>history := h', display := result,
                 current_number := (if \<not> str_in ''Error'' result then result else []),
                 previous_number := [], operation := [], just_calculated := True\<rparr>
      else st)"

definition press_clear :: "calc \<Rightarrow> calc" where
  "press_clear st = st\<lparr>current_number := [], previous_number := [], operation := [],
                       display := ''0'', just_calculated := False\<rparr>"

definition press_del :: "calc \<Rightarrow> calc" where
  "press_del st =
     (if \<not> just_calculated st \<and> 1 < length (display st)
      then st\<lparr>display := butlast (display st), current_number := butlast (display st)\<rparr>
      else if length (display st) = 1
      then st\<lparr>display := ''0'', current_number := []\<rparr>
      else st)"

definition press_plusminus :: "calc \<Rightarrow> calc" where
  "press_plusminus st =
     (if current_number st \<noteq> [] \<and> current_number st \<noteq> ''0''
      then let c = (if startswith (current_number st) ''-'' then drop 1 (current_number st)
                    else ''-'' @ current_number st)
           in st\<lparr>current_number := c, display := c\<rparr>
      else st)"

definition press_percent :: "calc \<Rightarrow> calc" where
  "press_percent st =
     (if current_number st \<noteq> []
      then (case float_of_string (current_number st) of
              None \<Rightarrow> st\<lparr>display := ''Error''\<rparr>
            | Some x \<Rightarrow>
               (case float_div x (float_of_int 100) of
                  None \<Rightarrow> st\<lparr>display := ''Error''\<rparr>
                | Some r \<Rightarrow> st\<lparr>display := py_str r, current_number := py_str r\<rparr>))
      else st)"

text \<open>The \<open>if\<close>/\<open>elif\<close> chain of lines 208 to 294.\<close>

definition handle_button :: "string \<Rightarrow> calc \<Rightarrow> calc" where
  "handle_button button_text st =
     (if isdigit button_text then press_digit button_text st
      else if button_text = ''.'' then press_dot st
      else if button_text \<in> set operators then press_operator button_text st
      else if button_text = ''='' then press_equals st
      else if button_text = ''C'' then press_clear st
      else if button_text = ''del'' then press_del st
      else if button_text = plusminus_sym then press_plusminus st
      else if button_text = ''%'' then press_percent st
      else st)"

text \<open>Lines 202 to 205: visual feedback for a button of the layout.\<close>

definition mark_pressed :: "pyfloat \<Rightarrow> string \<Rightarrow> calc \<Rightarrow> calc" where
  "mark_pressed current_time button_text st =
     (if button_text \<in> set (map fst (buttons st))
      then st\<lparr>buttons := map (\<lambda>(k, d). if k = button_text then (k, d\<lparr>pressed := True\<rparr>)
                                            else (k, d)) (buttons st),
              button_pressed := Some button_text,
              button_press_time := current_time\<rparr>
      else st)"

text \<open>
  \<open>press\<close> is \<open>process_button_press\<close> from line 199 on, the part that runs once the
  cooldown check has passed: one Activation Event. Every path through it ends by
  storing the current time (line 296, and line 239 before the early return).
\<close>

definition press :: "pyfloat \<Rightarrow> string \<Rightarrow> calc \<Rightarrow> calc" where
  "press current_time button_text st =
     (handle_button button_text
        (mark_pressed current_time button_text
           (st\<lparr>printed := printed st @ [''Button pressed: '' @ button_text]\<rparr>)))
     \<lparr>last_touch_time := current_time\<rparr>"

text \<open>The cooldown check of line 196.\<close>

definition in_cooldown :: "pyfloat \<Rightarrow> calc \<Rightarrow> bool" where
  "in_cooldown current_time st =
     float_less (float_sub current_time (last_touch_time st)) touch_cooldown"

definition process_button_press :: "pyfloat \<Rightarrow> string \<Rightarrow> calc \<Rightarrow> calc" where
  "process_button_press current_time button_text st =
     (if in_cooldown current_time st then st
      else press current_time button_text st)"

text \<open>A sequence of Activation Events, each with the clock reading it happened at.\<close>

definition activations :: "(pyfloat \<times> string) list \<Rightarrow> calc \<Rightarrow> calc" where
  "activations evs st = foldl (\<lambda>s (t, b). press t b s) st evs"


subsection \<open>Traces\<close>

text \<open>The digit buttons of the layout.\<close>

definition digit_buttons :: "string list" where
  "digit_buttons = map (\<lambda>c. [c]) ''0123456789''"

text \<open>
  The entries appended to the history while a sequence of Activation Events runs, in
  order: one for each \<open>=\<close> that finds both operands and an operator (line 254).
\<close>

fun recorded :: "(pyfloat \<times> string) list \<Rightarrow> calc \<Rightarrow> string list" where
  "recorded [] st = []"
| "recorded ((t, b) # evs) st =
     (if b = ''='' \<and> equals_ready st
      then [history_entry st (calculate (previous_number st) (operation st) (current_number st))]
      else [])
     @ recorded evs (press t b st)"





text \<open>The buttons that pass the tests of line 159 and of the first half of line 161 for
  a point.\<close>

definition in_reach :: "int \<times> int \<Rightarrow> button_data \<Rightarrow> bool" where
  "in_reach p d = (is_point_in_rect p (rect d) \<and> calculate_distance p (center d) < touch_threshold)"

text \<open>Eleven evaluations in a row, for the history log.\<close>

definition eleven_evaluations :: "(pyfloat \<times> string) list" where
  "eleven_evaluations = map (Pair (Fin False 0))
     [''1'', ''+'', ''1'', ''='',  ''2'', ''+'', ''2'', ''='',  ''3'', ''+'', ''3'', ''='',
      ''4'', ''+'', ''4'', ''='',  ''5'', ''+'', ''5'', ''='',  ''6'', ''+'', ''6'', ''='',
      ''7'', ''+'', ''7'', ''='',  ''8'', ''+'', ''8'', ''='',  ''9'', ''+'', ''9'', ''='',
      ''1'', ''+'', ''2'', ''='',  ''1'', ''+'', ''3'', ''='']"

text \<open>Eleven evaluations that succeed and, after the fifth, one that divides by zero.\<close>

definition eleven_and_a_failure :: "(pyfloat \<times> string) list" where
  "eleven_and_a_failure = map (Pair (Fin False 0))
     [''1'', ''+'', ''1'', ''='',  ''2'', ''+'', ''2'', ''='',  ''3'', ''+'', ''3'', ''='',
      ''4'', ''+'', ''4'', ''='',  ''5'', ''+'', ''5'', ''='',
      ''5'', div_sym, ''del'', ''0'', ''='',
      ''6'', ''+'', ''6'', ''='',
      ''7'', ''+'', ''7'', ''='',  ''8'', ''+'', ''8'', ''='',  ''9'', ''+'', ''9'', ''='',
      ''1'', ''+'', ''2'', ''='',  ''1'', ''+'', ''3'', ''='']"

text \<open>Two clock readings, the doubles nearest to \<open>0.45\<close> and to \<open>0.75\<close>.\<close>

definition reading_0_45 :: pyfloat where
  "reading_0_45 = Fin False (8106479329266893 / 18014398509481984)"

definition reading_0_75 :: pyfloat where
  "reading_0_75 = Fin False (3 / 4)"

text \<open>The layout for the frame size that \<open>run\<close> asks the camera for.\<close>

definition default_layout :: calc where
  "default_layout = setup_buttons 1280 720 init_calc"



section \<open>Basic facts\<close>

lemma lit_0_000001_rounds: "lit_0_000001 = mk_float False (1 / 1000000)"
  by code_simp

lemma touch_cooldown_rounds: "touch_cooldown = mk_float False (3 / 10)"
  by code_simp

lemma readings_round:
  "float_of_string ''0.45'' = Some reading_0_45"
  "float_of_string ''0.75'' = Some reading_0_75"
  by code_simp+

lemma handle_equals: "handle_button ''='' st = press_equals st"
  by (simp add: handle_button_def isdigit_def isdigit_char_def is_ascii_digit_def
      operators_def times_sym_def div_sym_def)

lemma mark_pressed_fields:
  "display (mark_pressed t b st) = display st"
  "current_number (mark_pressed t b st) = current_number st"
  "previous_number (mark_pressed t b st) = previous_number st"
  "operation (mark_pressed t b st) = operation st"
  "just_calculated (mark_pressed t b st) = just_calculated st"
  "history (mark_pressed t b st) = history st"
  "last_touch_time (mark_pressed t b st) = last_touch_time st"
  "printed (mark_pressed t b st) = printed st"
  by (simp_all add: mark_pressed_def)

lemma last_touch_time_press: "last_touch_time (press t b st) = t"
  by (simp add: press_def)

lemma activations_Nil: "activations [] st = st"
  by (simp add: activations_def)

lemma activations_Cons: "activations ((t, b) # evs) st = activations evs (press t b st)"
  by (simp add: activations_def)

lemma first_press_passes: "\<not> in_cooldown (Fin False 1) init_calc"
  by code_simp

section \<open>The display invariant\<close>

text \<open>
  C1. The claim: after every finite sequence of activation events from the initial
  state, \<open>display\<close> is non-empty and is a decimal numeral, the error marker or a
  scientific-notation result. The code breaks it: \<open>5\<close>, \<open>\<plusminus>\<close>, \<open>del\<close> leaves the lone
  sign \<open>-\<close> in \<open>display\<close> and \<open>current_number\<close> (the \<open>del\<close> branch shortens \<open>-5\<close> without
  looking at what remains), and a further \<open>\<plusminus>\<close> strips it (its guard excludes only the
  empty operand and \<open>0\<close>), so the display ends empty.
\<close>

theorem display_empty_after_sign_toggle:
  "display (activations [(Fin False 1, ''5''), (Fin False 2, plusminus_sym),
                         (Fin False 3, ''del''), (Fin False 4, plusminus_sym)]
             init_calc) = []"
  by code_simp

section \<open>\<open>=\<close> without operands\<close>

text \<open>
  C9. When \<open>=\<close> is processed while \<open>current_number\<close>, \<open>operation\<close> or \<open>previous_number\<close>
  is empty, the five calculator fields and the history are unchanged, whether the
  press passes the cooldown check or is dropped by it.
\<close>

theorem equals_noop_when_operand_missing:
  assumes "current_number st = [] \<or> operation st = [] \<or> previous_number st = []"
  shows "display (process_button_press now ''='' st) = display st
       \<and> current_number (process_button_press now ''='' st) = current_number st
       \<and> previous_number (process_button_press now ''='' st) = previous_number st
       \<and> operation (process_button_press now ''='' st) = operation st
       \<and> just_calculated (process_button_press now ''='' st) = just_calculated st
       \<and> history (process_button_press now ''='' st) = history st"
proof -
  have "\<not> equals_ready (mark_pressed now ''=''
            (st\<lparr>printed := printed st @ [''Button pressed: '' @ ''='']\<rparr>))"
    using assms by (auto simp add: equals_ready_def mark_pressed_fields)
  then show ?thesis
    by (simp add: process_button_press_def press_def handle_equals press_equals_def
        mark_pressed_fields)
qed

theorem equals_noop_when_operand_missing_witness:
  "(current_number init_calc = [] \<or> operation init_calc = [] \<or> previous_number init_calc = [])
   \<and> display (process_button_press (Fin False 1) ''='' init_calc) = ''0''
   \<and> history (process_button_press (Fin False 1) ''='' init_calc) = []
   \<and> last_touch_time (process_button_press (Fin False 1) ''='' init_calc) = Fin False 1"
proof -
  have h: "current_number init_calc = [] \<or> operation init_calc = []
           \<or> previous_number init_calc = []"
    by (simp add: init_calc_def)
  have t: "last_touch_time (process_button_press (Fin False 1) ''='' init_calc) = Fin False 1"
    using first_press_passes by (simp add: process_button_press_def last_touch_time_press)
  show ?thesis
    using equals_noop_when_operand_missing [OF h, of "Fin False 1"] h t
    by (simp add: init_calc_def)
qed

section \<open>The debouncer\<close>










section \<open>Rounding error of the cooldown check\<close>

















section \<open>The activation timestamp\<close>




section \<open>The history log\<close>


lemma history_handle_other: "b \<noteq> ''='' \<Longrightarrow> history (handle_button b st) = history st"
  by (simp add: handle_button_def press_digit_def press_dot_def press_operator_def
      press_clear_def press_del_def press_plusminus_def press_percent_def
      Let_def split: option.splits)

lemma history_press_equals:
  "history (press_equals st) =
     (if equals_ready st
      then (let h = history st @ [history_entry st (calculate (previous_number st) (operation st) (current_number st))]
            in if 10 < length h then tl h else h)
      else history st)"
  by (simp add: press_equals_def Let_def)

lemma history_press:
  "history (press t b st) =
     (let h = history st @ (if b = ''='' \<and> equals_ready st
               then [history_entry st (calculate (previous_number st) (operation st) (current_number st))]
               else [])
      in if 10 < length h then tl h else h)" if "length (history st) \<le> 10"
proof (cases "b = ''=''")
  case True
  then show ?thesis using that
    by (simp add: press_def handle_equals history_press_equals equals_ready_def
        history_entry_def mark_pressed_fields Let_def)
next
  case False
  then show ?thesis using that
    by (simp add: press_def history_handle_other mark_pressed_fields)
qed

lemma drop_trim:
  "drop (length ((if 10 < length h then tl h else h) @ r) - 10) ((if 10 < length h then tl h else h) @ r)
   = drop (length (h @ r) - 10) (h @ r)" if "length h \<le> 11"
proof (cases "10 < length h")
  case True
  with that have l: "length h = 11" by simp
  then obtain x xs where h: "h = x # xs" by (cases h) auto
  with l have "length xs = 10" by simp
  then show ?thesis using h by simp
next
  case False
  then show ?thesis by simp
qed

lemma history_activations:
  "length (history st) \<le> 10 \<Longrightarrow>
   history (activations evs st) =
     drop (length (history st @ recorded evs st) - 10) (history st @ recorded evs st)"
proof (induction evs arbitrary: st)
  case Nil
  then show ?case by (simp add: activations_Nil)
next
  case (Cons e evs)
  obtain t b where e: "e = (t, b)" by (cases e) auto
  define new where "new = (if b = ''='' \<and> equals_ready st
               then [history_entry st (calculate (previous_number st) (operation st) (current_number st))]
               else [])"
  define h where "h = history st @ new"
  have lh: "length h \<le> 11" using Cons.prems by (simp add: h_def new_def)
  have hp: "history (press t b st) = (if 10 < length h then tl h else h)"
    using history_press [OF Cons.prems, of t b] by (simp add: h_def new_def Let_def)
  have l': "length (history (press t b st)) \<le> 10" using lh hp by auto
  have "history (activations (e # evs) st) = history (activations evs (press t b st))"
    by (simp add: e activations_Cons)
  also have "\<dots> = drop (length (history (press t b st) @ recorded evs (press t b st)) - 10)
                      (history (press t b st) @ recorded evs (press t b st))"
    by (rule Cons.IH [OF l'])
  also have "\<dots> = drop (length (h @ recorded evs (press t b st)) - 10) (h @ recorded evs (press t b st))"
    unfolding hp by (rule drop_trim [OF lh])
  also have "h @ recorded evs (press t b st) = history st @ recorded (e # evs) st"
    by (simp add: h_def new_def e)
  finally show ?case .
qed

text \<open>
  C4. Started from the initial state, the history never holds more than ten entries:
  it is the last ten of the entries recorded so far, in the order they were recorded,
  where every evaluation by \<open>=\<close> records an entry, also one whose result is the error
  marker. So once eleven entries have been recorded, the first is gone and the
  history is the second to the eleventh.
\<close>

theorem history_keeps_last_ten:
  "length (history (activations evs init_calc)) \<le> 10
   \<and> history (activations evs init_calc)
       = drop (length (recorded evs init_calc) - 10) (recorded evs init_calc)
   \<and> (length (recorded evs init_calc) = 11 \<longrightarrow>
        history (activations evs init_calc) = tl (recorded evs init_calc))"
proof -
  have h: "history (activations evs init_calc)
       = drop (length (recorded evs init_calc) - 10) (recorded evs init_calc)"
    using history_activations [of init_calc evs] by (simp add: init_calc_def)
  have "length (history (activations evs init_calc)) \<le> 10"
    unfolding h by simp
  moreover have "history (activations evs init_calc) = tl (recorded evs init_calc)"
    if "length (recorded evs init_calc) = 11"
    unfolding h using that by (simp add: drop_Suc)
  ultimately show ?thesis using h by blast
qed

theorem history_keeps_last_ten_witness:
  "length (recorded eleven_evaluations init_calc) = 11
   \<and> hd (recorded eleven_evaluations init_calc) = ''1 + 11 = 12''
   \<and> history (activations eleven_evaluations init_calc)
       = [''2 + 22 = 24'', ''3 + 33 = 36'', ''4 + 44 = 48'', ''5 + 55 = 60'', ''6 + 66 = 72'',
          ''7 + 77 = 84'', ''8 + 88 = 96'', ''9 + 99 = 108'', ''1 + 12 = 13'', ''1 + 13 = 14'']"
proof -
  have r: "recorded eleven_evaluations init_calc
       = [''1 + 11 = 12'', ''2 + 22 = 24'', ''3 + 33 = 36'', ''4 + 44 = 48'', ''5 + 55 = 60'',
          ''6 + 66 = 72'', ''7 + 77 = 84'', ''8 + 88 = 96'', ''9 + 99 = 108'', ''1 + 12 = 13'',
          ''1 + 13 = 14'']"
    by code_simp
  show ?thesis
    using history_keeps_last_ten [of eleven_evaluations] unfolding r by simp
qed

text \<open>
  As the specification words it, eleven successful evaluations leave the second to the
  eleventh recorded entry in the log. With a division by zero among them the failed
  evaluation is recorded too: twelve entries are recorded, eleven of them without the
  error marker, and the log is the third to the twelfth, the error entry included.
\<close>

theorem history_counts_failed_evaluations:
  "length (filter (\<lambda>e. \<not> str_in ''Error'' e) (recorded eleven_and_a_failure init_calc)) = 11
   \<and> length (recorded eleven_and_a_failure init_calc) = 12
   \<and> history (activations eleven_and_a_failure init_calc)
       = drop 2 (recorded eleven_and_a_failure init_calc)
   \<and> history (activations eleven_and_a_failure init_calc)
       \<noteq> take 10 (tl (recorded eleven_and_a_failure init_calc))
   \<and> ''5 '' @ div_sym @ '' 0 = Error'' \<in> set (history (activations eleven_and_a_failure init_calc))"
proof -
  have r: "recorded eleven_and_a_failure init_calc
       = [''1 + 11 = 12'', ''2 + 22 = 24'', ''3 + 33 = 36'', ''4 + 44 = 48'', ''5 + 55 = 60'',
          ''5 '' @ div_sym @ '' 0 = Error'',
          ''6 + 66 = 72'', ''7 + 77 = 84'', ''8 + 88 = 96'', ''9 + 99 = 108'', ''1 + 12 = 13'',
          ''1 + 13 = 14'']"
    by code_simp
  have h: "history (activations eleven_and_a_failure init_calc)
       = drop (length (recorded eleven_and_a_failure init_calc) - 10)
           (recorded eleven_and_a_failure init_calc)"
    using history_activations [of init_calc eleven_and_a_failure] by (simp add: init_calc_def)
  show ?thesis unfolding h r by (simp add: div_sym_def)
qed

section \<open>Digit entry\<close>

lemma digit_button_cases:
  "b \<in> set digit_buttons \<Longrightarrow> \<exists>c. b = [c] \<and> is_ascii_digit c"
  by (auto simp add: digit_buttons_def is_ascii_digit_def)

lemma isdigit_digit_button: "b \<in> set digit_buttons \<Longrightarrow> isdigit b"
proof -
  assume "b \<in> set digit_buttons"
  then obtain c where "b = [c]" "is_ascii_digit c"
    using digit_button_cases by blast
  then show ?thesis
    by (simp add: isdigit_def isdigit_char_def)
qed

lemma handle_digit: "b \<in> set digit_buttons \<Longrightarrow> handle_button b st = press_digit b st"
  by (simp add: handle_button_def isdigit_digit_button)

lemma no_error_without_E: "CHR ''E'' \<notin> set d \<Longrightarrow> \<not> str_in ''Error'' d"
  by (induction d) auto

lemma E_not_digit: "\<not> is_ascii_digit CHR ''E''"
  by (simp add: is_ascii_digit_def)

lemma digits_no_error: "list_all is_ascii_digit d \<Longrightarrow> \<not> str_in ''Error'' d"
proof (rule no_error_without_E)
  assume "list_all is_ascii_digit d"
  then have "\<forall>x\<in>set d. is_ascii_digit x" by (simp add: list_all_iff)
  then show "CHR ''E'' \<notin> set d" using E_not_digit by blast
qed

lemma press_digit_display:
  assumes "b \<in> set digit_buttons" "\<not> just_calculated st"
  shows "display (press t b st) =
           (if display st = ''0'' \<or> str_in ''Error'' (display st) then b
            else if length (display st) < 12 then display st @ b else display st)"
    and "\<not> just_calculated (press t b st)"
  using assms by (simp_all add: press_def handle_digit press_digit_def mark_pressed_fields Let_def)

lemma take_take_append: "take n (take n xs @ ys) = take n (xs @ ys)"
  by (simp add: min_def)

lemma list_all_take: "list_all P xs \<Longrightarrow> list_all P (take n xs)"
  by (auto simp add: list_all_iff dest: in_set_takeD)

lemma digits_append:
  assumes "\<not> just_calculated st" "display st = d" "d \<noteq> []" "hd d \<noteq> CHR ''0''"
    "list_all is_ascii_digit d" "length d \<le> 12"
    "\<forall>e\<in>set evs. snd e \<in> set digit_buttons"
  shows "display (activations evs st) = take 12 (d @ concat (map snd evs))"
  using assms
proof (induction evs arbitrary: st d)
  case Nil
  then show ?case by (simp add: activations_Nil)
next
  case (Cons e evs)
  obtain t b where e: "e = (t, b)" by (cases e) auto
  from Cons.prems(7) e have bd: "b \<in> set digit_buttons" by simp
  then obtain c where c: "b = [c]" "is_ascii_digit c"
    using digit_button_cases by blast
  obtain x xs where d: "d = x # xs" using Cons.prems(3) by (cases d) auto
  with Cons.prems(4) have x: "x \<noteq> CHR ''0''" by simp
  have nz: "display st \<noteq> ''0''" using Cons.prems(2) d x by simp
  have ne: "\<not> str_in ''Error'' (display st)"
    using Cons.prems(2) Cons.prems(5) by (simp add: digits_no_error)
  define d' where "d' = take 12 (d @ b)"
  have "display (press t b st) = (if length d < 12 then d @ b else d)"
    using press_digit_display(1) [OF bd Cons.prems(1), of t] nz ne Cons.prems(2) by simp
  also have "\<dots> = d'" using Cons.prems(6) by (simp add: d'_def c)
  finally have disp: "display (press t b st) = d'" .
  have jc: "\<not> just_calculated (press t b st)"
    by (rule press_digit_display(2) [OF bd Cons.prems(1)])
  have d'eq: "d' = x # take 11 (xs @ b)" by (simp add: d'_def d)
  have d'ne: "d' \<noteq> []" and d'hd: "hd d' \<noteq> CHR ''0''" using x by (simp_all add: d'eq)
  have "list_all is_ascii_digit (d @ b)" using Cons.prems(5) c by simp
  then have d'set: "list_all is_ascii_digit d'" unfolding d'_def by (rule list_all_take)
  have d'len: "length d' \<le> 12" by (simp add: d'_def)
  have rest: "\<forall>e\<in>set evs. snd e \<in> set digit_buttons" using Cons.prems(7) by simp
  have "display (activations (e # evs) st) = display (activations evs (press t b st))"
    by (simp add: e activations_Cons)
  also have "\<dots> = take 12 (d' @ concat (map snd evs))"
    by (rule Cons.IH [OF jc disp d'ne d'hd d'set d'len rest])
  also have "\<dots> = take 12 (d @ concat (map snd (e # evs)))"
    by (simp add: d'_def e take_take_append del: take_append)
  finally show ?case .
qed

text \<open>
  C6. For every sequence of digit activations, of any length, applied to a state whose
  \<open>just_calculated\<close> flag is false and whose display is \<open>0\<close>, the resulting display is
  the concatenation of the digits without its leading zeros, truncated at 12
  characters, or \<open>0\<close> when nothing but zeros was entered.
\<close>

theorem digits_concatenate_without_leading_zeros:
  assumes "\<forall>e\<in>set evs. snd e \<in> set digit_buttons"
    and "\<not> just_calculated st" and "display st = ''0''"
  shows "display (activations evs st) =
           (let z = dropWhile (\<lambda>c. c = CHR ''0'') (concat (map snd evs))
            in if z = [] then ''0'' else take 12 z)"
  using assms
proof (induction evs arbitrary: st)
  case Nil
  then show ?case by (simp add: activations_Nil)
next
  case (Cons e evs)
  obtain t b where e: "e = (t, b)" by (cases e) auto
  from Cons.prems e have bd: "b \<in> set digit_buttons" by simp
  then obtain c where c: "b = [c]" "is_ascii_digit c"
    using digit_button_cases by blast
  have disp: "display (press t b st) = b"
    using press_digit_display(1) [OF bd Cons.prems(2), of t] Cons.prems(3) by simp
  have jc: "\<not> just_calculated (press t b st)"
    by (rule press_digit_display(2) [OF bd Cons.prems(2)])
  have rest: "\<forall>e\<in>set evs. snd e \<in> set digit_buttons" using Cons.prems by simp
  have step: "display (activations (e # evs) st) = display (activations evs (press t b st))"
    by (simp add: e activations_Cons)
  show ?case
  proof (cases "c = CHR ''0''")
    case True
    then have "display (press t b st) = ''0''" using disp c by simp
    from Cons.IH [OF rest jc this] show ?thesis
      unfolding step by (simp add: e c True)
  next
    case False
    have "display (activations evs (press t b st)) = take 12 (b @ concat (map snd evs))"
      using False c by (intro digits_append [OF jc disp _ _ _ _ rest]) auto
    then show ?thesis unfolding step using False by (simp add: e c)
  qed
qed

theorem digits_concatenate_without_leading_zeros_witness:
  "\<not> just_calculated init_calc \<and> display init_calc = ''0''
   \<and> display (activations (map (Pair (Fin False 0))
        [''0'', ''0'', ''4'', ''2'', ''7'', ''1'', ''9'', ''3'', ''8'', ''5'',
         ''6'', ''0'', ''2'', ''4'', ''1'']) init_calc) = ''427193856024''"
proof -
  have a: "\<forall>e\<in>set (map (Pair (Fin False 0))
        [''0'', ''0'', ''4'', ''2'', ''7'', ''1'', ''9'', ''3'', ''8'', ''5'',
         ''6'', ''0'', ''2'', ''4'', ''1'']). snd e \<in> set digit_buttons"
    by (simp add: digit_buttons_def)
  have b: "\<not> just_calculated init_calc" and c: "display init_calc = ''0''"
    by (simp_all add: init_calc_def)
  show ?thesis
    using digits_concatenate_without_leading_zeros [OF a b c] b c by simp
qed

text \<open>
  As the specification words it, the display is the concatenation itself; a leading zero is
  replaced by the next digit, so \<open>0\<close>, \<open>5\<close> shows \<open>5\<close>, not \<open>05\<close>.
\<close>

theorem leading_zero_is_replaced:
  "\<not> just_calculated init_calc \<and> display init_calc = ''0''
   \<and> length [(Fin False 1, ''0''), (Fin False 2, ''5'')] \<le> 12
   \<and> display (activations [(Fin False 1, ''0''), (Fin False 2, ''5'')] init_calc) = ''5''
   \<and> take 12 (concat (map snd [(Fin False 1, ''0''), (Fin False 2, ''5'')])) = ''05''"
  by code_simp

section \<open>Evaluation and formatting\<close>

lemma float_div_defined: "\<not> float_eq_int y 0 \<Longrightarrow> \<exists>r. float_div x y = Some r"
  by (cases y; cases x) (auto simp add: fval_def split: if_splits)

lemma compute_defined:
  assumes "op \<in> set operators" "op = div_sym \<longrightarrow> \<not> float_eq_int y 0"
  shows "\<exists>r. compute op x y = Some r"
proof (cases "op = div_sym")
  case True
  with assms float_div_defined [of y x] show ?thesis
    by (auto simp add: compute_def div_sym_def times_sym_def)
next
  case False
  with assms(1) show ?thesis
    by (auto simp add: compute_def operators_def)
qed

lemma format_result_finite:
  "format_result (Fin s m) =
     (if 999999999 < m \<or> (m < 4722366482869645 / 4722366482869645213696 \<and> m \<noteq> 0)
      then fmt_e2 (Fin s m)
      else if m = of_int \<lfloor>m\<rfloor> then str_int (if s then - \<lfloor>m\<rfloor> else \<lfloor>m\<rfloor>)
      else rstrip CHR ''.'' (rstrip CHR ''0'' (fmt_f8 (Fin s m))))"
proof (cases s)
  case True
  then show ?thesis
    by (simp add: format_result_def lit_0_000001_def fval_def
        del: fmt_e2.simps fmt_f8.simps)
next
  case False
  then show ?thesis
    by (simp add: format_result_def lit_0_000001_def fval_def
        del: fmt_e2.simps fmt_f8.simps)
qed

lemma format_result_special:
  "format_result (Infty s) = (if s then ''-inf'' else ''inf'')"
  "format_result NaN = ''Error''"
  by (simp_all add: format_result_def lit_0_000001_def)

text \<open>
  C3. For operand strings that \<open>float\<close> accepts and an operator of the four (the
  divisor not zero for a division), \<open>calculate\<close> formats the double result. A finite
  result is put in scientific notation with two fractional digits exactly when its
  magnitude exceeds \<open>999999999\<close>, or is below the double \<open>0.000001\<close> and the result is not
  zero; otherwise as a bare integer exactly when it is integral; otherwise with eight
  fractional digits, trailing zeros and a trailing point stripped. An infinite result
  gives \<open>inf\<close> or \<open>-inf\<close>, and a NaN the error marker.
\<close>

theorem calculate_formatting_policy:
  assumes "float_of_string a = Some x" and "float_of_string b = Some y"
    and "op \<in> set operators" and "op = div_sym \<longrightarrow> \<not> float_eq_int y 0"
  shows "\<exists>r. compute op x y = Some r \<and> calculate a op b = format_result r
     \<and> (\<forall>s m. r = Fin s m \<longrightarrow>
           calculate a op b =
             (if 999999999 < m \<or> (m < 4722366482869645 / 4722366482869645213696 \<and> m \<noteq> 0)
              then fmt_e2 r
              else if m = of_int \<lfloor>m\<rfloor> then str_int (if s then - \<lfloor>m\<rfloor> else \<lfloor>m\<rfloor>)
              else rstrip CHR ''.'' (rstrip CHR ''0'' (fmt_f8 r))))
     \<and> (\<forall>s. r = Infty s \<longrightarrow> calculate a op b = (if s then ''-inf'' else ''inf''))
     \<and> (r = NaN \<longrightarrow> calculate a op b = ''Error'')"
proof -
  from compute_defined [OF assms(3,4)] obtain r where r: "compute op x y = Some r" by blast
  have c: "calculate a op b = format_result r"
    by (simp add: calculate_def assms(1,2) r)
  show ?thesis
    using r c by (auto simp add: format_result_finite format_result_special)
qed

theorem calculate_formatting_policy_witness:
  "float_of_string ''1'' = Some (Fin False 1) \<and> float_of_string ''3'' = Some (Fin False 3)
   \<and> div_sym \<in> set operators \<and> \<not> float_eq_int (Fin False 3) 0
   \<and> compute div_sym (Fin False 1) (Fin False 3)
       = Some (Fin False (6004799503160661 / 18014398509481984))
   \<and> calculate ''1'' div_sym ''3'' = ''0.33333333''"
proof -
  have a: "float_of_string ''1'' = Some (Fin False 1)"
    and b: "float_of_string ''3'' = Some (Fin False 3)"
    by code_simp+
  have o: "div_sym \<in> set operators" by (simp add: operators_def)
  have n: "\<not> float_eq_int (Fin False 3) 0" by (simp add: fval_def)
  then have z: "div_sym = div_sym \<longrightarrow> \<not> float_eq_int (Fin False 3) 0" by simp
  have r: "compute div_sym (Fin False 1) (Fin False 3)
       = Some (Fin False (6004799503160661 / 18014398509481984))"
    by code_simp
  have f: "format_result (Fin False (6004799503160661 / 18014398509481984)) = ''0.33333333''"
    by code_simp
  from calculate_formatting_policy [OF a b o z] obtain r'
    where "compute div_sym (Fin False 1) (Fin False 3) = Some r'"
      and "calculate ''1'' div_sym ''3'' = format_result r'"
    by blast
  with r f have "calculate ''1'' div_sym ''3'' = ''0.33333333''" by simp
  with a b o n r show ?thesis by blast
qed

text \<open>
  As the specification words it, the threshold is \<open>1e9\<close>: the sum of \<open>999999999\<close> and \<open>1\<close> is
  exactly \<open>1e9\<close>, which does not exceed \<open>1e9\<close> and is integral, so the policy of the
  specification gives the bare integer; the code compares with \<open>999999999\<close> and gives scientific
  notation.
\<close>

theorem calculate_threshold_is_999999999:
  "float_of_string ''999999999'' = Some (Fin False 999999999)
   \<and> float_of_string ''1'' = Some (Fin False 1)
   \<and> compute ''+'' (Fin False 999999999) (Fin False 1) = Some (Fin False 1000000000)
   \<and> calculate ''999999999'' ''+'' ''1'' = ''1.00e+09''
   \<and> spec_format_policy (Fin False 1000000000) = ''1000000000''"
  by code_simp

section \<open>Division by zero\<close>






section \<open>Percent\<close>







section \<open>The hit tester\<close>

lemma distance_less_threshold:
  "calculate_distance p c < touch_threshold \<longleftrightarrow> sq_dist p c < 900"
proof -
  have "(30 :: real) = sqrt 900"
    by (rule sym, rule real_sqrt_unique) simp_all
  then have "calculate_distance p c < touch_threshold
      \<longleftrightarrow> sqrt (of_int (sq_dist p c)) < sqrt 900"
    by (simp add: calculate_distance_def touch_threshold_def)
  also have "\<dots> \<longleftrightarrow> (of_int (sq_dist p c) :: real) < 900"
    by (rule real_sqrt_less_iff)
  also have "\<dots> \<longleftrightarrow> sq_dist p c < 900"
    by linarith
  finally show ?thesis .
qed

lemma distance_less_distance:
  "calculate_distance p c < calculate_distance p c' \<longleftrightarrow> sq_dist p c < sq_dist p c'"
  by (simp add: calculate_distance_def)

lemma detect_loop_none:
  assumes "t = None \<longrightarrow> m = None"
  shows "fst (detect_loop p t m bs) = None
         \<longleftrightarrow> t = None \<and> (\<forall>(k, d)\<in>set bs. \<not> in_reach p d)"
  using assms
proof (induction bs arbitrary: t m)
  case Nil
  then show ?case by simp
next
  case (Cons b bs)
  obtain k d where b: "b = (k, d)" by (cases b) auto
  define hit where "hit = (is_point_in_rect p (rect d)
       \<and> calculate_distance p (center d) < touch_threshold
       \<and> (case m of None \<Rightarrow> True | Some x \<Rightarrow> calculate_distance p (center d) < x))"
  define t' where "t' = (if hit then Some k else t)"
  define m' where "m' = (if hit then Some (calculate_distance p (center d)) else m)"
  have step: "fst (detect_loop p t m (b # bs)) = fst (detect_loop p t' m' bs)"
    by (simp add: b hit_def t'_def m'_def Let_def split: prod.splits)
  have inv: "t' = None \<longrightarrow> m' = None"
    using Cons.prems by (simp add: t'_def m'_def)
  have h: "t = None \<Longrightarrow> hit = in_reach p d"
    using Cons.prems by (simp add: hit_def in_reach_def)
  show ?case
    unfolding step Cons.IH [OF inv]
    using h by (auto simp add: b t'_def)
qed

lemma detect_loop_some:
  assumes "fst (detect_loop p t m bs) = Some k"
  shows "(t = Some k \<and> (\<forall>(k', d')\<in>set bs. in_reach p d' \<longrightarrow>
             (case m of None \<Rightarrow> False | Some x \<Rightarrow> x \<le> calculate_distance p (center d'))))
       \<or> (\<exists>d. (k, d) \<in> set bs \<and> in_reach p d
             \<and> (case m of None \<Rightarrow> True | Some x \<Rightarrow> calculate_distance p (center d) < x)
             \<and> (\<forall>(k', d')\<in>set bs. in_reach p d' \<longrightarrow>
                   calculate_distance p (center d) \<le> calculate_distance p (center d')))"
  using assms
proof (induction bs arbitrary: t m)
  case Nil
  then show ?case by simp
next
  case (Cons b bs)
  obtain k1 d1 where b: "b = (k1, d1)" by (cases b) auto
  define hit where "hit = (is_point_in_rect p (rect d1)
       \<and> calculate_distance p (center d1) < touch_threshold
       \<and> (case m of None \<Rightarrow> True | Some x \<Rightarrow> calculate_distance p (center d1) < x))"
  define t' where "t' = (if hit then Some k1 else t)"
  define m' where "m' = (if hit then Some (calculate_distance p (center d1)) else m)"
  have step: "fst (detect_loop p t m (b # bs)) = fst (detect_loop p t' m' bs)"
    by (simp add: b hit_def t'_def m'_def Let_def split: prod.splits)
  from Cons.prems have r: "fst (detect_loop p t' m' bs) = Some k" by (simp add: step)
  note ih = Cons.IH [OF r]
  show ?case
  proof (cases hit)
    case True
    then have reach: "in_reach p d1"
      and below: "case m of None \<Rightarrow> True | Some x \<Rightarrow> calculate_distance p (center d1) < x"
      by (simp_all add: hit_def in_reach_def)
    from True have tm: "t' = Some k1" "m' = Some (calculate_distance p (center d1))"
      by (simp_all add: t'_def m'_def)
    from ih show ?thesis
    proof
      assume "t' = Some k \<and> (\<forall>(k', d')\<in>set bs. in_reach p d' \<longrightarrow>
             (case m' of None \<Rightarrow> False | Some x \<Rightarrow> x \<le> calculate_distance p (center d')))"
      then have "k = k1" and "\<forall>(k', d')\<in>set bs. in_reach p d' \<longrightarrow>
             calculate_distance p (center d1) \<le> calculate_distance p (center d')"
        using tm by auto
      then have "(k, d1) \<in> set (b # bs) \<and> in_reach p d1
             \<and> (case m of None \<Rightarrow> True | Some x \<Rightarrow> calculate_distance p (center d1) < x)
             \<and> (\<forall>(k', d')\<in>set (b # bs). in_reach p d' \<longrightarrow>
                   calculate_distance p (center d1) \<le> calculate_distance p (center d'))"
        using reach below by (auto simp add: b)
      then show ?thesis by blast
    next
      assume "\<exists>d. (k, d) \<in> set bs \<and> in_reach p d
             \<and> (case m' of None \<Rightarrow> True | Some x \<Rightarrow> calculate_distance p (center d) < x)
             \<and> (\<forall>(k', d')\<in>set bs. in_reach p d' \<longrightarrow>
                   calculate_distance p (center d) \<le> calculate_distance p (center d'))"
      then obtain d where d: "(k, d) \<in> set bs" "in_reach p d"
        "calculate_distance p (center d) < calculate_distance p (center d1)"
        "\<forall>(k', d')\<in>set bs. in_reach p d' \<longrightarrow>
                   calculate_distance p (center d) \<le> calculate_distance p (center d')"
        using tm by auto
      have "case m of None \<Rightarrow> True | Some x \<Rightarrow> calculate_distance p (center d) < x"
        using below d(3) by (cases m) auto
      then have "(k, d) \<in> set (b # bs) \<and> in_reach p d
             \<and> (case m of None \<Rightarrow> True | Some x \<Rightarrow> calculate_distance p (center d) < x)
             \<and> (\<forall>(k', d')\<in>set (b # bs). in_reach p d' \<longrightarrow>
                   calculate_distance p (center d) \<le> calculate_distance p (center d'))"
        using d by (auto simp add: b)
      then show ?thesis by blast
    qed
  next
    case False
    then have tm: "t' = t" "m' = m" by (simp_all add: t'_def m'_def)
    have miss: "in_reach p d1 \<Longrightarrow>
        (case m of None \<Rightarrow> False | Some x \<Rightarrow> x \<le> calculate_distance p (center d1))"
      using False by (cases m) (auto simp add: hit_def in_reach_def)
    from ih show ?thesis
    proof
      assume "t' = Some k \<and> (\<forall>(k', d')\<in>set bs. in_reach p d' \<longrightarrow>
             (case m' of None \<Rightarrow> False | Some x \<Rightarrow> x \<le> calculate_distance p (center d')))"
      then have "t = Some k \<and> (\<forall>(k', d')\<in>set (b # bs). in_reach p d' \<longrightarrow>
             (case m of None \<Rightarrow> False | Some x \<Rightarrow> x \<le> calculate_distance p (center d')))"
        using tm miss by (auto simp add: b)
      then show ?thesis by blast
    next
      assume "\<exists>d. (k, d) \<in> set bs \<and> in_reach p d
             \<and> (case m' of None \<Rightarrow> True | Some x \<Rightarrow> calculate_distance p (center d) < x)
             \<and> (\<forall>(k', d')\<in>set bs. in_reach p d' \<longrightarrow>
                   calculate_distance p (center d) \<le> calculate_distance p (center d'))"
      then obtain d where d: "(k, d) \<in> set bs" "in_reach p d"
        "case m of None \<Rightarrow> True | Some x \<Rightarrow> calculate_distance p (center d) < x"
        "\<forall>(k', d')\<in>set bs. in_reach p d' \<longrightarrow>
                   calculate_distance p (center d) \<le> calculate_distance p (center d')"
        using tm by auto
      have "in_reach p d1 \<longrightarrow>
            calculate_distance p (center d) \<le> calculate_distance p (center d1)"
        using miss d(3) by (cases m) auto
      then have "(k, d) \<in> set (b # bs) \<and> in_reach p d
             \<and> (case m of None \<Rightarrow> True | Some x \<Rightarrow> calculate_distance p (center d) < x)
             \<and> (\<forall>(k', d')\<in>set (b # bs). in_reach p d' \<longrightarrow>
                   calculate_distance p (center d) \<le> calculate_distance p (center d'))"
        using d by (auto simp add: b)
      then show ?thesis by blast
    qed
  qed
qed

lemma detect_fst:
  "fst (detect_button_touch (Some p) st) = fst (detect_loop p None None (buttons st))"
  by (simp add: detect_button_touch_def split: prod.splits)

lemma default_buttons:
  "buttons default_layout =
    [(''C'', \<lparr>rect = (900, 200, 980, 260), center = (940, 230), pressed = False, hover = False\<rparr>),
     (plusminus_sym, \<lparr>rect = (988, 200, 1068, 260), center = (1028, 230), pressed = False, hover = False\<rparr>),
     (''%'', \<lparr>rect = (1076, 200, 1156, 260), center = (1116, 230), pressed = False, hover = False\<rparr>),
     (div_sym, \<lparr>rect = (1164, 200, 1244, 260), center = (1204, 230), pressed = False, hover = False\<rparr>),
     (''7'', \<lparr>rect = (900, 268, 980, 328), center = (940, 298), pressed = False, hover = False\<rparr>),
     (''8'', \<lparr>rect = (988, 268, 1068, 328), center = (1028, 298), pressed = False, hover = False\<rparr>),
     (''9'', \<lparr>rect = (1076, 268, 1156, 328), center = (1116, 298), pressed = False, hover = False\<rparr>),
     (times_sym, \<lparr>rect = (1164, 268, 1244, 328), center = (1204, 298), pressed = False, hover = False\<rparr>),
     (''4'', \<lparr>rect = (900, 336, 980, 396), center = (940, 366), pressed = False, hover = False\<rparr>),
     (''5'', \<lparr>rect = (988, 336, 1068, 396), center = (1028, 366), pressed = False, hover = False\<rparr>),
     (''6'', \<lparr>rect = (1076, 336, 1156, 396), center = (1116, 366), pressed = False, hover = False\<rparr>),
     (''-'', \<lparr>rect = (1164, 336, 1244, 396), center = (1204, 366), pressed = False, hover = False\<rparr>),
     (''1'', \<lparr>rect = (900, 404, 980, 464), center = (940, 434), pressed = False, hover = False\<rparr>),
     (''2'', \<lparr>rect = (988, 404, 1068, 464), center = (1028, 434), pressed = False, hover = False\<rparr>),
     (''3'', \<lparr>rect = (1076, 404, 1156, 464), center = (1116, 434), pressed = False, hover = False\<rparr>),
     (''+'', \<lparr>rect = (1164, 404, 1244, 464), center = (1204, 434), pressed = False, hover = False\<rparr>),
     (''0'', \<lparr>rect = (900, 472, 1068, 532), center = (984, 502), pressed = False, hover = False\<rparr>),
     (''.'', \<lparr>rect = (988, 472, 1068, 532), center = (1028, 502), pressed = False, hover = False\<rparr>),
     (''='', \<lparr>rect = (1076, 472, 1156, 532), center = (1116, 502), pressed = False, hover = False\<rparr>),
     (''del'', \<lparr>rect = (1164, 472, 1244, 532), center = (1204, 502), pressed = False, hover = False\<rparr>)]"
  by code_simp

text \<open>
  C7. For every layout the hit tester returns nothing when the point is absent. For
  a present point it considers the buttons whose rectangle contains the point and
  whose centre is less than 30 units from it, a centre at exactly 30 being discarded
  too: it returns nothing exactly when there is no such button, and otherwise one of
  them whose distance to the point is the least among them. In particular, of two
  buttons whose rectangles both contain the point, with centres at distances 10 and
  25, it returns the one at distance 10, in whichever order the layout lists them.
\<close>

theorem hit_tester_returns_nearest_in_reach:
  "fst (detect_button_touch None st) = None
   \<and> (fst (detect_button_touch (Some p) st) = None
        \<longleftrightarrow> (\<forall>(k, d)\<in>set (buttons st). \<not> in_reach p d))
   \<and> (\<forall>k. fst (detect_button_touch (Some p) st) = Some k \<longrightarrow>
         (\<exists>d. (k, d) \<in> set (buttons st) \<and> in_reach p d
            \<and> (\<forall>(k', d')\<in>set (buttons st). in_reach p d' \<longrightarrow>
                  calculate_distance p (center d) \<le> calculate_distance p (center d'))))
   \<and> (is_point_in_rect p (rect da) \<and> is_point_in_rect p (rect db)
        \<and> calculate_distance p (center da) = 10 \<and> calculate_distance p (center db) = 25
        \<longrightarrow> fst (detect_button_touch (Some p) (st\<lparr>buttons := [(a, da), (b, db)]\<rparr>)) = Some a
          \<and> fst (detect_button_touch (Some p) (st\<lparr>buttons := [(b, db), (a, da)]\<rparr>)) = Some a)"
proof (intro conjI allI impI)
  show "fst (detect_button_touch None st) = None"
    by (simp add: detect_button_touch_def)
  show "fst (detect_button_touch (Some p) st) = None
        \<longleftrightarrow> (\<forall>(k, d)\<in>set (buttons st). \<not> in_reach p d)"
    unfolding detect_fst using detect_loop_none [of None None p "buttons st"] by simp
next
  fix k
  assume "fst (detect_button_touch (Some p) st) = Some k"
  then have "fst (detect_loop p None None (buttons st)) = Some k"
    by (simp add: detect_fst)
  from detect_loop_some [OF this]
  show "\<exists>d. (k, d) \<in> set (buttons st) \<and> in_reach p d
            \<and> (\<forall>(k', d')\<in>set (buttons st). in_reach p d' \<longrightarrow>
                  calculate_distance p (center d) \<le> calculate_distance p (center d'))"
    by auto
next
  assume h: "is_point_in_rect p (rect da) \<and> is_point_in_rect p (rect db)
        \<and> calculate_distance p (center da) = 10 \<and> calculate_distance p (center db) = 25"
  then show "fst (detect_button_touch (Some p) (st\<lparr>buttons := [(a, da), (b, db)]\<rparr>)) = Some a"
    by (simp add: detect_fst touch_threshold_def Let_def)
  from h show "fst (detect_button_touch (Some p) (st\<lparr>buttons := [(b, db), (a, da)]\<rparr>)) = Some a"
    by (simp add: detect_fst touch_threshold_def Let_def)
qed

lemma zero_and_dot_overlap:
  "fst (detect_button_touch (Some (1000, 500)) default_layout) = Some ''0''"
  by (simp add: detect_fst default_buttons Let_def distance_less_threshold
      distance_less_distance sq_dist_def)

theorem hit_tester_returns_nearest_in_reach_witness:
  "fst (detect_button_touch (Some (1000, 500)) default_layout) = Some ''0''
   \<and> is_point_in_rect (1000, 500) (900, 472, 1068, 532)
   \<and> is_point_in_rect (1000, 500) (988, 472, 1068, 532)
   \<and> sq_dist (1000, 500) (984, 502) = 260 \<and> sq_dist (1000, 500) (1028, 502) = 788
   \<and> (\<exists>d. (''0'', d) \<in> set (buttons default_layout) \<and> in_reach (1000, 500) d
         \<and> calculate_distance (1000, 500) (center d)
             \<le> calculate_distance (1000, 500) (1028, 502))"
proof -
  let ?dot = "\<lparr>rect = (988, 472, 1068, 532), center = (1028, 502), pressed = False,
              hover = False\<rparr>"
  have dot: "(''.'', ?dot) \<in> set (buttons default_layout)"
    by (simp add: default_buttons)
  have reach: "in_reach (1000, 500) ?dot"
    by (simp add: in_reach_def distance_less_threshold sq_dist_def)
  from hit_tester_returns_nearest_in_reach [of default_layout "(1000, 500)"]
    zero_and_dot_overlap
  obtain d where d: "(''0'', d) \<in> set (buttons default_layout)" "in_reach (1000, 500) d"
    "\<forall>(k', d')\<in>set (buttons default_layout). in_reach (1000, 500) d' \<longrightarrow>
        calculate_distance (1000, 500) (center d) \<le> calculate_distance (1000, 500) (center d')"
    by blast
  from d(3) dot reach
  have "calculate_distance (1000, 500) (center d) \<le> calculate_distance (1000, 500) (1028, 502)"
    by fastforce
  with d(1,2) zero_and_dot_overlap show ?thesis
    by (auto simp add: sq_dist_def)
qed

text \<open>
  As the specification words it, only a candidate farther than 30 units is discarded. The
  point \<open>(958, 322)\<close> lies in the rectangle of \<open>7\<close> at exactly 30 units from its centre,
  not farther, and the hit tester returns nothing.
\<close>

theorem hit_tester_discards_distance_30:
  "(''7'', \<lparr>rect = (900, 268, 980, 328), center = (940, 298), pressed = False,
            hover = False\<rparr>) \<in> set (buttons default_layout)
   \<and> is_point_in_rect (958, 322) (900, 268, 980, 328)
   \<and> calculate_distance (958, 322) (940, 298) = 30
   \<and> \<not> 30 < calculate_distance (958, 322) (940, 298)
   \<and> fst (detect_button_touch (Some (958, 322)) default_layout) = None"
proof -
  have "sqrt 900 = 30"
    by (rule real_sqrt_unique) simp_all
  then have d: "calculate_distance (958, 322) (940, 298) = 30"
    by (simp add: calculate_distance_def sq_dist_def)
  have n: "fst (detect_button_touch (Some (958, 322)) default_layout) = None"
    by (simp add: detect_fst default_buttons Let_def distance_less_threshold
        distance_less_distance sq_dist_def)
  show ?thesis using d n by (simp add: default_buttons)
qed

end
